theory Spec2Isabelle
  imports Main "HOL-Library.Word"
begin

section \<open>JavaScript values used by the Recent Files panel\<close>

text \<open>
  A JavaScript string is a sequence of UTF-16 code units: \<open>length\<close> and
  \<open>substring\<close> count code units, and the Japanese labels and emoji of the source are
  written here by their code units. \<open>js\<close> embeds an ASCII literal.
\<close>

type_synonym jsstring = "16 word list"

definition js :: "string \<Rightarrow> jsstring" where
  "js s = map (\<lambda>c. of_nat (of_char c)) s"

text \<open>
  The values a property read of the two lookup tables can give: \<open>undefined\<close>,
  \<open>null\<close>, a string, or an object (in this program only a member that every object
  literal inherits from \<open>Object.prototype\<close>), recorded by the text its string
  conversion gives.
\<close>

datatype jsval = JUndefined | JNull | JStr jsstring | JObj jsstring

fun truthy :: "jsval \<Rightarrow> bool" where
  "truthy JUndefined = False"
| "truthy JNull = False"
| "truthy (JStr s) = (s \<noteq> [])"
| "truthy (JObj t) = True"

text \<open>String conversion, as a template literal \<open>${v}\<close> performs it.\<close>

fun toString :: "jsval \<Rightarrow> jsstring" where
  "toString JUndefined = js ''undefined''"
| "toString JNull = js ''null''"
| "toString (JStr s) = s"
| "toString (JObj t) = t"

text \<open>\<open>a || b\<close> on values.\<close>

definition or_else :: "jsval \<Rightarrow> jsval \<Rightarrow> jsval" where
  "or_else a b = (if truthy a then a else b)"

text \<open>
  \<open>x || ''\<close> for a field that is a string or absent (\<open>undefined\<close> or \<open>null\<close>,
  both \<open>None\<close>): the empty string is falsy and is replaced by the empty string.
\<close>

fun orEmpty :: "jsstring option \<Rightarrow> jsstring" where
  "orEmpty None = []"
| "orEmpty (Some s) = s"

text \<open>
  What the program takes from its host and does not define itself:
  \<open>String.prototype.toLowerCase\<close>; the text that string conversion gives for a
  member of \<open>Object.prototype\<close>; \<open>new Date(s)\<close> as the time value in milliseconds
  (\<open>None\<close> for an invalid date); the clock \<open>new Date()\<close>, read once per rendering;
  \<open>toLocaleDateString('ja-JP', {month: 'short', day: 'numeric'})\<close>; and the message of
  the TypeError raised by reading a property of \<open>undefined\<close> or \<open>null\<close>.
  Time values are integers of magnitude at most 8.64e15. Differences and quotients are
  modelled on \<open>int\<close>, which is what the source computes in double precision as long
  as the difference of the two time values is below 2^53 in magnitude (every valid date,
  with a clock before about the year 13600); above that the source rounds and the model
  does not.
\<close>

record host =
  toLowerCase :: "jsstring \<Rightarrow> jsstring"
  memberText :: "jsstring \<Rightarrow> jsstring"
  parseDate :: "jsstring \<Rightarrow> int option"
  now :: int
  toLocaleDateString :: "int option \<Rightarrow> jsstring"
  typeErrorMessage :: "jsstring \<Rightarrow> jsstring"

text \<open>
  The property names every object literal inherits from \<open>Object.prototype\<close>; each
  is a function, or for \<open>__proto__\<close> the prototype object itself.
\<close>

definition objectPrototypeKeys :: "jsstring list" where
  "objectPrototypeKeys =
     [js ''constructor'', js ''__defineGetter__'', js ''__defineSetter__'',
      js ''hasOwnProperty'', js ''__lookupGetter__'', js ''__lookupSetter__'',
      js ''isPrototypeOf'', js ''propertyIsEnumerable'', js ''toString'', js ''valueOf'',
      js ''__proto__'', js ''toLocaleString'']"

text \<open>
  \<open>obj[key]\<close> for an object literal with the own properties \<open>own\<close>: an own
  property, else an inherited member, else \<open>undefined\<close>.
\<close>

definition getprop :: "host \<Rightarrow> (jsstring \<times> jsval) list \<Rightarrow> jsstring \<Rightarrow> jsval" where
  "getprop h own key =
     (case map_of own key of
        Some v \<Rightarrow> v
      | None \<Rightarrow> if key \<in> set objectPrototypeKeys then JObj (memberText h key) else JUndefined)"

text \<open>Decimal text of a number, as \<open>${n}\<close> gives it for an integer.\<close>

fun digits :: "nat \<Rightarrow> jsstring" where
  "digits n = (if n < 10 then [of_nat (48 + n)]
               else digits (n div 10) @ [of_nat (48 + n mod 10)])"

declare digits.simps [simp del]

definition num :: "int \<Rightarrow> jsstring" where
  "num i = (if i < 0 then js ''-'' @ digits (nat (- i)) else digits (nat i))"

text \<open>Exceptions: \<open>new Error(message)\<close>, a rejected promise of the host, a TypeError
  for reading the named property of \<open>undefined\<close> or \<open>null\<close>.\<close>

datatype error = Error jsstring | Rejected jsstring | TypeError jsstring

fun message :: "host \<Rightarrow> error \<Rightarrow> jsstring" where
  "message h (Error m) = m"
| "message h (Rejected m) = m"
| "message h (TypeError p) = typeErrorMessage h p"

section \<open>recent.js: constants and state\<close>

record recentFile =
  path :: "jsstring option"
  filename :: "jsstring option"
  extension :: "jsstring option"
  modified_at :: "jsstring option"

definition FILTER_MAP :: "(jsstring \<times> jsval) list" where
  "FILTER_MAP =
     [(js ''all'', JNull),
      (js ''pdf'', JStr (js ''pdf'')),
      (js ''word'', JStr (js ''docx'')),
      (js ''excel'', JStr (js ''xlsx''))]"

definition FILE_ICONS :: "(jsstring \<times> jsval) list" where
  "FILE_ICONS =
     [(js ''.pdf'', JStr [0xD83D, 0xDCD5]),
      (js ''.doc'', JStr [0xD83D, 0xDCD8]),
      (js ''.docx'', JStr [0xD83D, 0xDCD8]),
      (js ''.xls'', JStr [0xD83D, 0xDCD7]),
      (js ''.xlsx'', JStr [0xD83D, 0xDCD7]),
      (js ''.ppt'', JStr [0xD83D, 0xDCD9]),
      (js ''.pptx'', JStr [0xD83D, 0xDCD9]),
      (js ''default'', JStr [0xD83D, 0xDCC4])]"

text \<open>
  The module state \<open>currentFilter\<close>, \<open>allFilesCache\<close>, and the element
  \<open>recentFilesList\<close> of the page: \<open>None\<close> when the page has no such element,
  otherwise its \<open>innerHTML\<close>.
\<close>

record panel =
  currentFilter :: jsstring
  allFilesCache :: "recentFile list"
  recentFilesList :: "jsstring option"

section \<open>recent.js: utilities\<close>

definition getFileIcon :: "host \<Rightarrow> jsstring option \<Rightarrow> jsval" where
  "getFileIcon h extension' =
     (let ext = toLowerCase h (orEmpty extension')
      in or_else (getprop h FILE_ICONS ext) (getprop h FILE_ICONS (js ''default'')))"

text \<open>\<open>str.replace(/c/g, r)\<close> for a single character \<open>c\<close> and a replacement text
  without \<open>$\<close>: every occurrence is replaced, left to right.\<close>

fun replace_g :: "16 word \<Rightarrow> jsstring \<Rightarrow> jsstring \<Rightarrow> jsstring" where
  "replace_g c r [] = []"
| "replace_g c r (x # xs) = (if x = c then r @ replace_g c r xs else x # replace_g c r xs)"

text \<open>\<open>str.split(sep)\<close> and \<open>parts.join(sep)\<close> for a separator of one character.\<close>

fun js_split :: "16 word \<Rightarrow> jsstring \<Rightarrow> jsstring list" where
  "js_split sep [] = [[]]"
| "js_split sep (x # xs) =
     (if x = sep then [] # js_split sep xs
      else (case js_split sep xs of
              [] \<Rightarrow> [[x]]
            | w # ws \<Rightarrow> (x # w) # ws))"

fun js_join :: "16 word \<Rightarrow> jsstring list \<Rightarrow> jsstring" where
  "js_join sep [] = []"
| "js_join sep [w] = w"
| "js_join sep (w # v # ws) = w @ [sep] @ js_join sep (v # ws)"

text \<open>\<open>parts.pop()\<close> removes the last element (none of an empty array).\<close>

definition getFolderPath :: "jsstring option \<Rightarrow> jsstring" where
  "getFolderPath path' =
     (case path' of
        None \<Rightarrow> []
      | Some p \<Rightarrow>
          if p = [] then []
          else (let parts = js_split 0x5C (replace_g 0x2F [0x5C] p)
                in js_join 0x5C (butlast parts)))"

definition formatRelativeDate :: "host \<Rightarrow> jsstring option \<Rightarrow> jsstring" where
  "formatRelativeDate h dateString =
     (case dateString of
        None \<Rightarrow> []
      | Some s \<Rightarrow>
          if s = [] then []
          else (case parseDate h s of
                  None \<Rightarrow> toLocaleDateString h None
                | Some date \<Rightarrow>
                    (let diffMs = now h - date;
                         diffMinutes = diffMs div (1000 * 60);
                         diffHours = diffMs div (1000 * 60 * 60);
                         diffDays = diffMs div (1000 * 60 * 60 * 24)
                     in if diffMinutes < 1 then [0x4ECA]
                        else if diffMinutes < 60 then num diffMinutes @ [0x5206, 0x524D]
                        else if diffHours < 24 then num diffHours @ [0x6642, 0x9593, 0x524D]
                        else if diffDays < 7 then num diffDays @ [0x65E5, 0x524D]
                        else toLocaleDateString h (Some date))))"

definition escapeHTML :: "jsstring option \<Rightarrow> jsstring" where
  "escapeHTML str =
     (case str of
        None \<Rightarrow> []
      | Some s \<Rightarrow>
          if s = [] then []
          else replace_g 0x27 (js ''&#039;'')
                (replace_g 0x22 (js ''&quot;'')
                  (replace_g 0x3E (js ''&gt;'')
                    (replace_g 0x3C (js ''&lt;'')
                      (replace_g 0x26 (js ''&amp;'') s)))))"

section \<open>recent.js: rendering\<close>

text \<open>The local \<open>filename\<close> of \<open>createFileItemHTML\<close>: the name shown in the row.\<close>

definition displayName :: "jsstring \<Rightarrow> jsstring" where
  "displayName fn = (if length fn > 30 then take 27 fn @ js ''...'' else fn)"

text \<open>The template literal of \<open>createFileItemHTML\<close>, with its six holes in the order
  \<open>data-path\<close>, \<open>title\<close>, icon, name, folder path (inserted twice), date.\<close>

definition fileItemTemplate ::
  "jsstring \<Rightarrow> jsstring \<Rightarrow> jsstring \<Rightarrow> jsstring \<Rightarrow> jsstring \<Rightarrow> jsstring \<Rightarrow> jsstring" where
  "fileItemTemplate dataPath title icon name folder date =
     js ''\<newline>        <div class=\"recent-file-item\" data-path=\"'' @ dataPath @
     js ''\" title=\"'' @ title @
     js ''\">\<newline>            <div class=\"recent-file-header\">\<newline>                <span class=\"recent-file-icon\">'' @ icon @
     js ''</span>\<newline>                <span class=\"recent-file-name\">'' @ name @
     js ''</span>\<newline>            </div>\<newline>            <div class=\"recent-file-path\" title=\"'' @ folder @
     js ''\">'' @ folder @
     js ''</div>\<newline>            <div class=\"recent-file-date\">'' @ [0xD83D, 0xDCC5] @ js '' '' @ date @
     js ''</div>\<newline>        </div>\<newline>    ''"

text \<open>
  \<open>file.filename.length\<close> raises a TypeError when \<open>filename\<close> is absent; icon, date
  and folder path are computed before that and do not raise.
\<close>

definition createFileItemHTML :: "host \<Rightarrow> recentFile \<Rightarrow> error + jsstring" where
  "createFileItemHTML h file =
     (let icon = getFileIcon h (extension file);
          date = formatRelativeDate h (modified_at file);
          folderPath = getFolderPath (path file)
      in case filename file of
           None \<Rightarrow> Inl (TypeError (js ''length''))
         | Some fn \<Rightarrow>
             Inr (fileItemTemplate
                    (escapeHTML (path file))
                    (escapeHTML (Some fn))
                    (toString icon)
                    (escapeHTML (Some (displayName fn)))
                    (escapeHTML (Some folderPath))
                    date))"

text \<open>\<open>files.map(createFileItemHTML)\<close>: the first exception ends the loop.\<close>

fun mapRows :: "host \<Rightarrow> recentFile list \<Rightarrow> error + jsstring list" where
  "mapRows h [] = Inr []"
| "mapRows h (f # fs) =
     (case createFileItemHTML h f of
        Inl e \<Rightarrow> Inl e
      | Inr r \<Rightarrow> (case mapRows h fs of Inl e \<Rightarrow> Inl e | Inr rs \<Rightarrow> Inr (r # rs)))"

text \<open>The filtering step of \<open>displayFilteredFiles\<close>: its local \<open>filteredFiles\<close>.\<close>

definition filteredFiles :: "host \<Rightarrow> jsstring \<Rightarrow> recentFile list \<Rightarrow> recentFile list" where
  "filteredFiles h currentFilter' cache =
     (if currentFilter' \<noteq> js ''all'' then
        (let filterExt = getprop h FILTER_MAP currentFilter'
         in if truthy filterExt then
              filter (\<lambda>file.
                 let ext = toLowerCase h (orEmpty (extension file))
                 in if currentFilter' = js ''word'' then ext = js ''.doc'' \<or> ext = js ''.docx''
                    else if currentFilter' = js ''excel'' then ext = js ''.xls'' \<or> ext = js ''.xlsx''
                    else ext = js ''.'' @ toString filterExt) cache
            else cache)
      else cache)"

definition emptyHTML :: jsstring where
  "emptyHTML =
     js ''\<newline>            <div class=\"recent-files-empty\">\<newline>                '' @
     [0xD83D, 0xDCED] @ js '' '' @
     [0x8A72, 0x5F53, 0x3059, 0x308B, 0x30D5, 0x30A1, 0x30A4, 0x30EB, 0x304C, 0x3042, 0x308A,
      0x307E, 0x305B, 0x3093] @
     js ''\<newline>            </div>\<newline>        ''"

definition countHTML :: "nat \<Rightarrow> jsstring" where
  "countHTML n =
     js ''\<newline>        <div class=\"recent-files-count\">\<newline>            '' @ digits n @
     js '' '' @ [0x4EF6, 0x306E, 0x30D5, 0x30A1, 0x30A4, 0x30EB] @
     js ''\<newline>        </div>\<newline>    ''"

text \<open>
  \<open>displayFilteredFiles\<close>. An exception of a row leaves the element as it was. The
  click handlers attached at the end are not part of the modelled state.
\<close>

definition displayFilteredFiles :: "host \<Rightarrow> panel \<Rightarrow> error + panel" where
  "displayFilteredFiles h s =
     (case recentFilesList s of
        None \<Rightarrow> Inr s
      | Some _ \<Rightarrow>
          (let files = filteredFiles h (currentFilter s) (allFilesCache s)
           in if length files = 0 then Inr (s\<lparr>recentFilesList := Some emptyHTML\<rparr>)
              else (case mapRows h files of
                      Inl e \<Rightarrow> Inl e
                    | Inr rows \<Rightarrow>
                        Inr (s\<lparr>recentFilesList :=
                                  Some (concat rows @ countHTML (length files))\<rparr>))))"

section \<open>recent.js: loading\<close>

text \<open>
  What \<open>fetch\<close> answers: a rejection, or a response with \<open>ok\<close>, \<open>status\<close> and the
  outcome of \<open>response.json()\<close>: a rejection (the body is not JSON), \<open>null\<close>, or a
  value whose \<open>hits\<close> is absent or falsy (\<open>None\<close>) or an array of records.
\<close>

datatype body = BadJson jsstring | JsonNull | JsonValue "recentFile list option"

record response =
  ok :: bool
  status :: nat
  json :: body

datatype fetched = FetchRejected jsstring | Response response

definition loadingHTML :: jsstring where
  "loadingHTML =
     js ''\<newline>        <div class=\"recent-files-loading\">\<newline>            <span class=\"loading-spinner\"></span>\<newline>            '' @
     [0x8AAD, 0x307F, 0x8FBC, 0x307F, 0x4E2D] @
     js ''...\<newline>        </div>\<newline>    ''"

definition errorHTML :: "jsstring \<Rightarrow> jsstring" where
  "errorHTML msg =
     js ''\<newline>            <div class=\"recent-files-error\">\<newline>                '' @
     [0x26A0, 0xFE0F] @ js '' '' @
     [0x30D5, 0x30A1, 0x30A4, 0x30EB, 0x306E, 0x53D6, 0x5F97, 0x306B, 0x5931, 0x6557, 0x3057,
      0x307E, 0x3057, 0x305F] @
     js ''<br>\<newline>                <small>'' @ msg @
     js ''</small>\<newline>            </div>\<newline>        ''"

text \<open>
  The \<open>try\<close> block of \<open>loadRecentFiles\<close>: an exception comes with the state at the
  moment it is raised.
\<close>

definition loadRecentFiles_try :: "host \<Rightarrow> fetched \<Rightarrow> panel \<Rightarrow> (error \<times> panel) + panel" where
  "loadRecentFiles_try h answer s =
     (case answer of
        FetchRejected m \<Rightarrow> Inl (Rejected m, s)
      | Response resp \<Rightarrow>
          if \<not> ok resp then Inl (Error (js ''API error: '' @ digits (status resp)), s)
          else (case json resp of
                  BadJson m \<Rightarrow> Inl (Rejected m, s)
                | JsonNull \<Rightarrow> Inl (TypeError (js ''hits''), s)
                | JsonValue hits \<Rightarrow>
                    (let s' = s\<lparr>allFilesCache := (case hits of None \<Rightarrow> [] | Some fs \<Rightarrow> fs)\<rparr>
                     in case displayFilteredFiles h s' of
                          Inl e \<Rightarrow> Inl (e, s')
                        | Inr s'' \<Rightarrow> Inr s'')))"

text \<open>
  \<open>loadRecentFiles\<close>, from the call to the completion of the request; \<open>answer\<close> is
  what the request for \<open>/api/recent?days=...\<close> gives.
\<close>

definition loadRecentFiles :: "host \<Rightarrow> fetched \<Rightarrow> panel \<Rightarrow> error + panel" where
  "loadRecentFiles h answer s =
     (case recentFilesList s of
        None \<Rightarrow> Inr s
      | Some _ \<Rightarrow>
          (case loadRecentFiles_try h answer (s\<lparr>recentFilesList := Some loadingHTML\<rparr>) of
             Inr s' \<Rightarrow> Inr s'
           | Inl (e, s') \<Rightarrow> Inr (s'\<lparr>recentFilesList := Some (errorHTML (message h e))\<rparr>)))"

section \<open>The shared utilities (the second script)\<close>

text \<open>
  \<open>getFileIcon\<close> and \<open>formatRelativeDate\<close> of the shared utilities script, under
  the names \<open>getFileIcon_shared\<close> and \<open>formatRelativeDate_shared\<close>. recent.js declares
  functions of the same names itself. Which declaration a page ends up with depends on
  the order in which it loads the two scripts, and the pages are not among the sources:
  each script is modelled with the functions of its own file, so the rows of recent.js
  are built with the functions of recent.js.
\<close>

definition iconMap :: "(jsstring \<times> jsval) list" where
  "iconMap =
     [(js ''.pdf'', JStr [0xD83D, 0xDCD5]),
      (js ''.doc'', JStr [0xD83D, 0xDCD8]),
      (js ''.docx'', JStr [0xD83D, 0xDCD8]),
      (js ''.xls'', JStr [0xD83D, 0xDCD7]),
      (js ''.xlsx'', JStr [0xD83D, 0xDCD7]),
      (js ''.ppt'', JStr [0xD83D, 0xDCD9]),
      (js ''.pptx'', JStr [0xD83D, 0xDCD9]),
      (js ''.txt'', JStr [0xD83D, 0xDCC4]),
      (js ''.md'', JStr [0xD83D, 0xDCDD]),
      (js ''.csv'', JStr [0xD83D, 0xDCCA]),
      (js ''.json'', JStr [0xD83D, 0xDCCB]),
      (js ''.xml'', JStr [0xD83D, 0xDCCB]),
      (js ''.yaml'', JStr [0xD83D, 0xDCCB]),
      (js ''.yml'', JStr [0xD83D, 0xDCCB]),
      (js ''.py'', JStr [0xD83D, 0xDC0D]),
      (js ''.js'', JStr [0xD83D, 0xDCDC]),
      (js ''.ts'', JStr [0xD83D, 0xDCDC]),
      (js ''.html'', JStr [0xD83C, 0xDF10]),
      (js ''.css'', JStr [0xD83C, 0xDFA8]),
      (js ''.java'', JStr [0x2615]),
      (js ''.c'', JStr [0x2699, 0xFE0F]),
      (js ''.cpp'', JStr [0x2699, 0xFE0F]),
      (js ''.go'', JStr [0xD83D, 0xDD37]),
      (js ''.rs'', JStr [0xD83E, 0xDD80]),
      (js ''.rb'', JStr [0xD83D, 0xDC8E]),
      (js ''.php'', JStr [0xD83D, 0xDC18]),
      (js ''.sql'', JStr [0xD83D, 0xDDC3, 0xFE0F]),
      (js ''.zip'', JStr [0xD83D, 0xDCE6]),
      (js ''.rar'', JStr [0xD83D, 0xDCE6]),
      (js ''.7z'', JStr [0xD83D, 0xDCE6]),
      (js ''.tar'', JStr [0xD83D, 0xDCE6]),
      (js ''.gz'', JStr [0xD83D, 0xDCE6]),
      (js ''.jpg'', JStr [0xD83D, 0xDDBC, 0xFE0F]),
      (js ''.jpeg'', JStr [0xD83D, 0xDDBC, 0xFE0F]),
      (js ''.png'', JStr [0xD83D, 0xDDBC, 0xFE0F]),
      (js ''.gif'', JStr [0xD83D, 0xDDBC, 0xFE0F]),
      (js ''.svg'', JStr [0xD83D, 0xDDBC, 0xFE0F]),
      (js ''.webp'', JStr [0xD83D, 0xDDBC, 0xFE0F]),
      (js ''.mp3'', JStr [0xD83C, 0xDFB5]),
      (js ''.wav'', JStr [0xD83C, 0xDFB5]),
      (js ''.flac'', JStr [0xD83C, 0xDFB5]),
      (js ''.aac'', JStr [0xD83C, 0xDFB5]),
      (js ''.mp4'', JStr [0xD83C, 0xDFAC]),
      (js ''.avi'', JStr [0xD83C, 0xDFAC]),
      (js ''.mkv'', JStr [0xD83C, 0xDFAC]),
      (js ''.mov'', JStr [0xD83C, 0xDFAC]),
      (js ''.webm'', JStr [0xD83C, 0xDFAC])]"

text \<open>\<open>extension.toLowerCase()\<close> raises a TypeError when \<open>extension\<close> is absent.\<close>

definition getFileIcon_shared :: "host \<Rightarrow> jsstring option \<Rightarrow> error + jsval" where
  "getFileIcon_shared h extension' =
     (case extension' of
        None \<Rightarrow> Inl (TypeError (js ''toLowerCase''))
      | Some s \<Rightarrow> Inr (or_else (getprop h iconMap (toLowerCase h s)) (JStr [0xD83D, 0xDCC4])))"

text \<open>With an invalid date every comparison with \<open>NaN\<close> is false and the last
  branch prints \<open>NaN\<close>.\<close>

definition formatRelativeDate_shared :: "host \<Rightarrow> jsstring option \<Rightarrow> jsstring" where
  "formatRelativeDate_shared h dateString =
     (case dateString of
        None \<Rightarrow> [0x4E0D, 0x660E]
      | Some s \<Rightarrow>
          if s = [] then [0x4E0D, 0x660E]
          else (case parseDate h s of
                  None \<Rightarrow> js ''NaN'' @ [0x5E74, 0x524D]
                | Some date \<Rightarrow>
                    (let diffMs = now h - date;
                         diffDays = diffMs div (1000 * 60 * 60 * 24)
                     in if diffDays = 0 then [0x4ECA, 0x65E5]
                        else if diffDays = 1 then [0x6628, 0x65E5]
                        else if diffDays < 7 then num diffDays @ [0x65E5, 0x524D]
                        else if diffDays < 30 then num (diffDays div 7) @ [0x9031, 0x9593, 0x524D]
                        else if diffDays < 365 then num (diffDays div 30) @ [0x30F6, 0x6708, 0x524D]
                        else num (diffDays div 365) @ [0x5E74, 0x524D])))"

section \<open>A host for evaluating examples\<close>

definition lowerUnit :: "16 word \<Rightarrow> 16 word" where
  "lowerUnit c = (if 0x41 \<le> c \<and> c \<le> 0x5A then c + 0x20 else c)"

text \<open>
  Lower-casing of the letters A to Z only; one date string, the epoch, is understood;
  native functions print in the usual form; the TypeError message names \<open>null\<close> for the
  read of \<open>hits\<close> (which fails on a \<open>null\<close> body only) and \<open>undefined\<close> otherwise.
\<close>

definition exampleHost :: host where
  "exampleHost =
     \<lparr> toLowerCase = map lowerUnit,
       memberText = (\<lambda>k. if k = js ''__proto__'' then js ''[object Object]''
                          else js ''function '' @ (if k = js ''constructor'' then js ''Object'' else k)
                               @ js ''() { [native code] }''),
       parseDate = (\<lambda>s. if s = js ''1970-01-01T00:00:00.000Z'' then Some 0 else None),
       now = 0,
       toLocaleDateString =
         (\<lambda>t. case t of None \<Rightarrow> js ''Invalid Date'' | Some _ \<Rightarrow> [0x31, 0x6708, 0x31, 0x65E5]),
       typeErrorMessage =
         (\<lambda>p. js ''Cannot read properties of '' @
               (if p = js ''hits'' then js ''null'' else js ''undefined'') @
               js '' (reading '' @ [0x27] @ p @ [0x27] @ js '')'') \<rparr>"

definition exampleFile :: recentFile where
  "exampleFile =
     \<lparr> path = Some (js ''C:/docs/a.pdf''), filename = Some (js ''a.pdf''),
       extension = Some (js ''.pdf''), modified_at = None \<rparr>"

definition examplePanel :: panel where
  "examplePanel =
     \<lparr> currentFilter = js ''all'', allFilesCache = [exampleFile], recentFilesList = Some [] \<rparr>"

section \<open>Notions of the specification\<close>

text \<open>The selector predicates of the filter, on a lower-cased extension.\<close>

definition selects :: "jsstring \<Rightarrow> jsstring \<Rightarrow> bool" where
  "selects selector ext =
     (if selector = js ''pdf'' then ext = js ''.pdf''
      else if selector = js ''word'' then ext = js ''.doc'' \<or> ext = js ''.docx''
      else if selector = js ''excel'' then ext = js ''.xls'' \<or> ext = js ''.xlsx''
      else True)"

text \<open>The Errored state with a message, reached from \<open>s\<close> without touching the cache
  and without an exception leaving the function.\<close>

definition erroredWith :: "jsstring \<Rightarrow> panel \<Rightarrow> error + panel \<Rightarrow> bool" where
  "erroredWith msg s r =
     (case r of
        Inl e \<Rightarrow> False
      | Inr s' \<Rightarrow> recentFilesList s' = Some (errorHTML msg) \<and> allFilesCache s' = allFilesCache s)"

text \<open>The entity that stands for one character, and a text with every character
  replaced by its entity.\<close>

definition entity :: "16 word \<Rightarrow> jsstring" where
  "entity c =
     (if c = 0x26 then js ''&amp;''
      else if c = 0x3C then js ''&lt;''
      else if c = 0x3E then js ''&gt;''
      else if c = 0x22 then js ''&quot;''
      else if c = 0x27 then js ''&#039;''
      else [c])"

definition escaped :: "jsstring \<Rightarrow> jsstring" where
  "escaped s = concat (map entity s)"

text \<open>
  A check of a text for markup-free insertion: none of \<open>< > " '\<close> occurs, and each
  \<open>&\<close> begins one of the five entities.
\<close>

fun wellEscaped :: "jsstring \<Rightarrow> bool" where
  "wellEscaped [] = True"
| "wellEscaped (c # cs) =
     (if c = 0x26 then
        (take 4 cs = js ''amp;'' \<or> take 3 cs = js ''lt;'' \<or> take 3 cs = js ''gt;''
         \<or> take 5 cs = js ''quot;'' \<or> take 5 cs = js ''#039;'') \<and> wellEscaped cs
      else c \<noteq> 0x3C \<and> c \<noteq> 0x3E \<and> c \<noteq> 0x22 \<and> c \<noteq> 0x27 \<and> wellEscaped cs)"

text \<open>A path with every forward slash turned into a backslash.\<close>

definition backslashed :: "jsstring \<Rightarrow> jsstring" where
  "backslashed p = map (\<lambda>c. if c = 0x2F then 0x5C else c) p"

text \<open>
  The extensions the table of the shared utilities gives a glyph of its own that
  \<open>FILE_ICONS\<close> does not list: its text, source code, archive, image, audio and video
  entries, without \<open>.txt\<close>, whose glyph is the default one.
\<close>

definition sharedOnlyKeys :: "jsstring list" where
  "sharedOnlyKeys =
     filter (\<lambda>k. k \<notin> set (map fst FILE_ICONS) \<and> k \<noteq> js ''.txt'') (map fst iconMap)"

text \<open>The seven document extensions of \<open>FILE_ICONS\<close>, and the default glyph.\<close>

definition documentIcon :: "jsstring \<Rightarrow> jsval" where
  "documentIcon k =
     (if k = js ''.pdf'' then JStr [0xD83D, 0xDCD5]
      else if k = js ''.doc'' \<or> k = js ''.docx'' then JStr [0xD83D, 0xDCD8]
      else if k = js ''.xls'' \<or> k = js ''.xlsx'' then JStr [0xD83D, 0xDCD7]
      else if k = js ''.ppt'' \<or> k = js ''.pptx'' then JStr [0xD83D, 0xDCD9]
      else JStr [0xD83D, 0xDCC4])"

section \<open>Auxiliary facts\<close>

subsection \<open>String literals\<close>

lemma js_unit_unat: "unat (of_nat (of_char c) :: 16 word) = of_char c"
proof -
  have "(of_char c :: nat) < 65536"
    using nat_of_char_less_256 [of c] by linarith
  then show ?thesis
    by (simp add: unat_of_nat)
qed

lemma js_eq_iff: "js a = js b \<longleftrightarrow> a = b"
proof -
  have "inj (\<lambda>c. of_nat (of_char c) :: 16 word)"
  proof (rule injI)
    fix c d :: char
    assume "(of_nat (of_char c) :: 16 word) = of_nat (of_char d)"
    then have "unat (of_nat (of_char c) :: 16 word) = unat (of_nat (of_char d) :: 16 word)"
      by simp
    then show "c = d"
      by (simp add: js_unit_unat)
  qed
  then show ?thesis
    by (simp add: js_def inj_map_eq_map)
qed

subsection \<open>Replacement, splitting and joining\<close>

lemma replace_g_append: "replace_g c r (xs @ ys) = replace_g c r xs @ replace_g c r ys"
  by (induction xs) simp_all

lemma escape_chain_Cons:
  "replace_g 0x27 (js ''&#039;'')
     (replace_g 0x22 (js ''&quot;'')
       (replace_g 0x3E (js ''&gt;'')
         (replace_g 0x3C (js ''&lt;'')
           (replace_g 0x26 (js ''&amp;'') s)))) = escaped s"
proof (induction s)
  case Nil
  show ?case by (simp add: escaped_def)
next
  case (Cons x xs)
  have "replace_g 0x26 (js ''&amp;'') (x # xs) = (if x = 0x26 then js ''&amp;'' else [x]) @ replace_g 0x26 (js ''&amp;'') xs"
    by simp
  then show ?case
    using Cons by (simp only: replace_g_append) (simp add: escaped_def entity_def js_def)
qed

lemma escapeHTML_escaped: "escapeHTML x = escaped (orEmpty x)"
  by (cases x) (simp_all add: escapeHTML_def escape_chain_Cons, simp_all add: escaped_def)

lemma wellEscaped_escaped: "wellEscaped (escaped s)"
  by (induction s) (simp_all add: escaped_def entity_def js_def)

lemma escaped_no_markup: "set (escaped s) \<inter> {0x3C, 0x3E, 0x22, 0x27} = {}"
  by (induction s) (simp_all add: escaped_def entity_def js_def)

lemma replace_g_single: "replace_g c [d] s = map (\<lambda>x. if x = c then d else x) s"
  by (induction s) simp_all

lemma js_split_not_Nil: "js_split sep s \<noteq> []"
  by (induction s) (simp_all split: list.splits)

lemma js_split_no_sep: "sep \<notin> set s \<Longrightarrow> js_split sep s = [s]"
  by (induction s) auto

lemma js_split_last_segment:
  "sep \<notin> set name \<Longrightarrow> js_split sep (d @ sep # name) = js_split sep d @ [name]"
proof (induction d)
  case Nil
  then show ?case by (simp add: js_split_no_sep)
next
  case (Cons x d)
  then show ?case
    using js_split_not_Nil [of sep d] by (cases "js_split sep d") simp_all
qed

lemma js_join_split: "js_join sep (js_split sep s) = s"
proof (induction s)
  case Nil
  show ?case by simp
next
  case (Cons x xs)
  obtain w ws where ws: "js_split sep xs = w # ws"
    using js_split_not_Nil [of sep xs] by (cases "js_split sep xs") auto
  show ?case
    using Cons ws by (cases ws) simp_all
qed

subsection \<open>Thresholds of floor division\<close>

lemma int_div_less_iff:
  fixes e k n :: int
  assumes "0 < k"
  shows "e div k < n \<longleftrightarrow> e < n * k"
proof -
  define q where "q = e div k"
  define r where "r = e mod k"
  have e: "e = k * q + r"
    by (simp add: q_def r_def)
  have r: "0 \<le> r" "r < k"
    using assms by (simp_all add: r_def)
  have up: "k * q + k \<le> k * n" if "q < n"
  proof -
    have "k * (q + 1) \<le> k * n"
      using assms that by (intro mult_left_mono) auto
    then show ?thesis by (simp add: algebra_simps)
  qed
  have down: "k * n \<le> k * q" if "\<not> q < n"
    using assms that by (intro mult_left_mono) auto
  have "q < n \<longleftrightarrow> k * q + r < k * n"
    using up down r by fastforce
  then show ?thesis
    unfolding q_def [symmetric] using e by (simp add: mult.commute)
qed

subsection \<open>The lookup tables\<close>

lemma sharedOnlyKeys_eval:
  "sharedOnlyKeys =
     [js ''.md'', js ''.csv'', js ''.json'', js ''.xml'', js ''.yaml'', js ''.yml'', js ''.py'',
      js ''.js'', js ''.ts'', js ''.html'', js ''.css'', js ''.java'', js ''.c'', js ''.cpp'',
      js ''.go'', js ''.rs'', js ''.rb'', js ''.php'', js ''.sql'', js ''.zip'', js ''.rar'',
      js ''.7z'', js ''.tar'', js ''.gz'', js ''.jpg'', js ''.jpeg'', js ''.png'', js ''.gif'',
      js ''.svg'', js ''.webp'', js ''.mp3'', js ''.wav'', js ''.flac'', js ''.aac'', js ''.mp4'',
      js ''.avi'', js ''.mkv'', js ''.mov'', js ''.webm'']"
  by (simp add: sharedOnlyKeys_def iconMap_def FILE_ICONS_def js_eq_iff)

lemma inherited_not_own:
  "\<forall>k \<in> set objectPrototypeKeys. map_of FILE_ICONS k = None \<and> map_of iconMap k = None
      \<and> map_of FILTER_MAP k = None"
  by (simp add: objectPrototypeKeys_def FILE_ICONS_def iconMap_def FILTER_MAP_def js_eq_iff)

lemma core_icon_inherited:
  "k \<in> set objectPrototypeKeys \<Longrightarrow>
   or_else (getprop h FILE_ICONS k) (getprop h FILE_ICONS (js ''default'')) = JObj (memberText h k)"
  using inherited_not_own by (simp add: getprop_def or_else_def)

lemma shared_icon_inherited:
  "k \<in> set objectPrototypeKeys \<Longrightarrow>
   or_else (getprop h iconMap k) (JStr [0xD83D, 0xDCC4]) = JObj (memberText h k)"
  using inherited_not_own by (simp add: getprop_def or_else_def)

lemma shared_only_differs:
  "\<forall>k \<in> set sharedOnlyKeys.
     or_else (getprop h iconMap k) (JStr [0xD83D, 0xDCC4]) \<noteq> JStr [0xD83D, 0xDCC4]
     \<and> or_else (getprop h FILE_ICONS k) (getprop h FILE_ICONS (js ''default''))
         = JStr [0xD83D, 0xDCC4]"
  by (simp add: sharedOnlyKeys_eval)
     (simp add: getprop_def iconMap_def FILE_ICONS_def or_else_def objectPrototypeKeys_def js_eq_iff)

lemma shared_icon_agrees:
  "k \<notin> set objectPrototypeKeys \<Longrightarrow> k \<notin> set sharedOnlyKeys \<Longrightarrow>
   or_else (getprop h iconMap k) (JStr [0xD83D, 0xDCC4]) =
     (if k = js ''.pdf'' then JStr [0xD83D, 0xDCD5]
      else if k = js ''.doc'' \<or> k = js ''.docx'' then JStr [0xD83D, 0xDCD8]
      else if k = js ''.xls'' \<or> k = js ''.xlsx'' then JStr [0xD83D, 0xDCD7]
      else if k = js ''.ppt'' \<or> k = js ''.pptx'' then JStr [0xD83D, 0xDCD9]
      else JStr [0xD83D, 0xDCC4])"
  by (simp add: sharedOnlyKeys_eval) (simp add: getprop_def iconMap_def or_else_def js_eq_iff)

lemma core_icon_cases:
  "k \<notin> set objectPrototypeKeys \<Longrightarrow>
   or_else (getprop h FILE_ICONS k) (getprop h FILE_ICONS (js ''default'')) =
     (if k = js ''.pdf'' then JStr [0xD83D, 0xDCD5]
      else if k = js ''.doc'' \<or> k = js ''.docx'' then JStr [0xD83D, 0xDCD8]
      else if k = js ''.xls'' \<or> k = js ''.xlsx'' then JStr [0xD83D, 0xDCD7]
      else if k = js ''.ppt'' \<or> k = js ''.pptx'' then JStr [0xD83D, 0xDCD9]
      else JStr [0xD83D, 0xDCC4])"
  by (simp add: getprop_def FILE_ICONS_def or_else_def js_eq_iff)

lemma exampleHost_lower: "toLowerCase exampleHost = map lowerUnit"
  by (simp add: exampleHost_def)

subsection \<open>Filtering and loading\<close>

lemma filteredFiles_selects:
  "selector \<notin> set objectPrototypeKeys \<Longrightarrow>
   filteredFiles h selector cache =
     filter (\<lambda>file. selects selector (toLowerCase h (orEmpty (extension file)))) cache"
  by (simp add: filteredFiles_def selects_def getprop_def FILTER_MAP_def js_def Let_def)

lemma filteredFiles_Nil: "filteredFiles h selector [] = []"
  by (simp add: filteredFiles_def Let_def)

lemma loadRecentFiles_returns: "\<exists>s'. loadRecentFiles h answer s = Inr s'"
  by (simp add: loadRecentFiles_def split: option.splits sum.splits prod.splits)

lemma emptyHTML_not_errorHTML: "emptyHTML \<noteq> errorHTML m"
  by (simp add: emptyHTML_def errorHTML_def js_def)

section \<open>The claims\<close>

subsection \<open>C1: filtering\<close>

text \<open>
  For a selector that names no member inherited from \<open>Object.prototype\<close>, the filtering
  step is the order-preserving subsequence of the cache whose lower-cased extensions
  satisfy the selector's predicate (\<open>filteredFiles_selects\<close>): \<open>all\<close> and every unknown
  selector keep every entry.

  Claim C1 says this of every selector outside \<open>all\<close>, \<open>pdf\<close>, \<open>word\<close>, \<open>excel\<close>. It
  fails for a selector such as \<open>constructor\<close>: \<open>FILTER_MAP[currentFilter]\<close> then finds
  the inherited member, which is truthy, so the guard \<open>if (filterExt)\<close> meant to let
  unknown selectors through does not, every extension is compared with a dot followed by
  the text of a function, and no entry is kept, where \<open>all\<close> keeps the entry.
\<close>

theorem inherited_selector_hides_all:
  "filteredFiles exampleHost (js ''constructor'') [exampleFile] = []
   \<and> filteredFiles exampleHost (js ''all'') [exampleFile] = [exampleFile]"
  by (simp add: filteredFiles_def getprop_def FILTER_MAP_def objectPrototypeKeys_def
      exampleHost_def exampleFile_def lowerUnit_def js_def)

subsection \<open>C2: a failed fetch\<close>

text \<open>
  Claim C2. When the page has the list element and the request answers with a
  non-success status, or its body is not JSON, or is the JSON value \<open>null\<close>, or the
  request itself is rejected, \<open>loadRecentFiles\<close> ends in the Errored state carrying
  the message of the failure (\<open>API error: \<close> and the status, or the host's message),
  with the cache as it was before; and whatever the answer, no exception leaves
  \<open>loadRecentFiles\<close>. The markup of the Errored state is the block of class
  \<open>recent-files-error\<close> with the warning line and the message inside \<open><small>\<close>;
  two messages that differ give markup that differs.
\<close>

theorem failed_fetch_keeps_cache:
  "recentFilesList s = Some html \<longrightarrow>
     (\<not> ok r \<longrightarrow>
        erroredWith (js ''API error: '' @ digits (status r)) s (loadRecentFiles h (Response r) s))
     \<and> (ok r \<and> json r = BadJson m \<longrightarrow> erroredWith m s (loadRecentFiles h (Response r) s))
     \<and> (ok r \<and> json r = JsonNull \<longrightarrow>
          erroredWith (typeErrorMessage h (js ''hits'')) s (loadRecentFiles h (Response r) s))
     \<and> erroredWith m s (loadRecentFiles h (FetchRejected m) s)
     \<and> (\<exists>s'. loadRecentFiles h answer s = Inr s')
     \<and> errorHTML msg =
         js ''\<newline>            <div class=\"recent-files-error\">\<newline>                '' @
         [0x26A0, 0xFE0F] @ js '' '' @
         [0x30D5, 0x30A1, 0x30A4, 0x30EB, 0x306E, 0x53D6, 0x5F97, 0x306B, 0x5931, 0x6557, 0x3057,
          0x307E, 0x3057, 0x305F] @
         js ''<br>\<newline>                <small>'' @ msg @
         js ''</small>\<newline>            </div>\<newline>        ''
     \<and> (errorHTML msg = errorHTML msg') = (msg = msg')"
proof -
  have markup: "errorHTML msg =
         js ''\<newline>            <div class=\"recent-files-error\">\<newline>                '' @
         [0x26A0, 0xFE0F] @ js '' '' @
         [0x30D5, 0x30A1, 0x30A4, 0x30EB, 0x306E, 0x53D6, 0x5F97, 0x306B, 0x5931, 0x6557, 0x3057,
          0x307E, 0x3057, 0x305F] @
         js ''<br>\<newline>                <small>'' @ msg @
         js ''</small>\<newline>            </div>\<newline>        ''"
    by (simp add: errorHTML_def)
  have carried: "(errorHTML msg = errorHTML msg') = (msg = msg')"
    by (simp add: errorHTML_def)
  have status: "erroredWith (js ''API error: '' @ digits (status r)) s
      (loadRecentFiles h (Response r) s)" if "recentFilesList s = Some html" "\<not> ok r"
    using that by (simp add: erroredWith_def loadRecentFiles_def loadRecentFiles_try_def)
  have unparsed: "erroredWith m s (loadRecentFiles h (Response r) s)"
    if "recentFilesList s = Some html" "ok r" "json r = BadJson m"
    using that by (simp add: erroredWith_def loadRecentFiles_def loadRecentFiles_try_def)
  have null: "erroredWith (typeErrorMessage h (js ''hits'')) s (loadRecentFiles h (Response r) s)"
    if "recentFilesList s = Some html" "ok r" "json r = JsonNull"
    using that by (simp add: erroredWith_def loadRecentFiles_def loadRecentFiles_try_def)
  have rejected: "erroredWith m s (loadRecentFiles h (FetchRejected m) s)"
    if "recentFilesList s = Some html"
    using that by (simp add: erroredWith_def loadRecentFiles_def loadRecentFiles_try_def)
  show ?thesis
    using status unparsed null rejected loadRecentFiles_returns [of h answer s] markup carried
    by blast
qed

theorem failed_fetch_keeps_cache_witness:
  "recentFilesList examplePanel = Some []
   \<and> \<not> ok \<lparr>ok = False, status = 404, json = JsonNull\<rparr>
   \<and> erroredWith (js ''API error: 404'') examplePanel
        (loadRecentFiles exampleHost (Response \<lparr>ok = False, status = 404, json = JsonNull\<rparr>)
           examplePanel)
   \<and> ok \<lparr>ok = True, status = 200, json = BadJson (js ''Unexpected token'')\<rparr>
   \<and> json \<lparr>ok = True, status = 200, json = BadJson (js ''Unexpected token'')\<rparr>
       = BadJson (js ''Unexpected token'')
   \<and> erroredWith (js ''Unexpected token'') examplePanel
        (loadRecentFiles exampleHost
           (Response \<lparr>ok = True, status = 200, json = BadJson (js ''Unexpected token'')\<rparr>)
           examplePanel)
   \<and> json \<lparr>ok = True, status = 200, json = JsonNull\<rparr> = JsonNull
   \<and> erroredWith (typeErrorMessage exampleHost (js ''hits'')) examplePanel
        (loadRecentFiles exampleHost (Response \<lparr>ok = True, status = 200, json = JsonNull\<rparr>)
           examplePanel)
   \<and> errorHTML (js ''API error: 404'') =
         js ''\<newline>            <div class=\"recent-files-error\">\<newline>                '' @
         [0x26A0, 0xFE0F] @ js '' '' @
         [0x30D5, 0x30A1, 0x30A4, 0x30EB, 0x306E, 0x53D6, 0x5F97, 0x306B, 0x5931, 0x6557, 0x3057,
          0x307E, 0x3057, 0x305F] @
         js ''<br>\<newline>                <small>API error: 404</small>\<newline>            </div>\<newline>        ''
   \<and> errorHTML (js ''API error: 404'') \<noteq> errorHTML (js ''API error: 500'')"
proof -
  have shown: "recentFilesList examplePanel = Some []"
    by (simp add: examplePanel_def)
  have msg: "js ''API error: '' @ digits 404 = js ''API error: 404''"
    by (simp add: digits.simps js_def)
  show ?thesis
    using shown msg
      failed_fetch_keeps_cache [where s = examplePanel and html = "[]" and h = exampleHost
        and r = "\<lparr>ok = False, status = 404, json = JsonNull\<rparr>"
        and msg = "js ''API error: 404''" and msg' = "js ''API error: 500''"]
      failed_fetch_keeps_cache [where s = examplePanel and html = "[]" and h = exampleHost
        and r = "\<lparr>ok = True, status = 200, json = BadJson (js ''Unexpected token'')\<rparr>"
        and m = "js ''Unexpected token''"]
      failed_fetch_keeps_cache [where s = examplePanel and html = "[]" and h = exampleHost
        and r = "\<lparr>ok = True, status = 200, json = JsonNull\<rparr>"]
    by (simp add: js_def)
qed

subsection \<open>C3: the utilities of recent.js and of the shared script\<close>

text \<open>
  recent.js defines \<open>getFileIcon\<close> and \<open>formatRelativeDate\<close> itself, and they are not
  the functions of the shared utilities: for \<open>.md\<close> the shared table has a glyph of its
  own and recent.js gives the default glyph; for an absent date the shared function
  prints a word for "unknown" and recent.js the empty text.
\<close>

theorem own_utilities_differ:
  "getFileIcon_shared exampleHost (Some (js ''.md'')) = Inr (JStr [0xD83D, 0xDCDD])
   \<and> getFileIcon exampleHost (Some (js ''.md'')) = JStr [0xD83D, 0xDCC4]
   \<and> formatRelativeDate_shared exampleHost None = [0x4E0D, 0x660E]
   \<and> formatRelativeDate exampleHost None = []"
  by (simp add: getFileIcon_shared_def getFileIcon_def getprop_def iconMap_def FILE_ICONS_def
      or_else_def objectPrototypeKeys_def exampleHost_lower lowerUnit_def js_def
      formatRelativeDate_shared_def formatRelativeDate_def)

text \<open>
  Claim C3, amended. The two icon functions give the same result for a present extension
  exactly when its lower-cased form is not one of the shared table's entries outside the
  seven document extensions and \<open>.txt\<close>; the two date functions give the same label
  for a present, valid date that lies at least 2 and less than 7 whole days back.
\<close>

theorem own_utilities_partly_agree:
  "(toLowerCase h s \<notin> set sharedOnlyKeys \<longrightarrow>
      getFileIcon_shared h (Some s) = Inr (getFileIcon h (Some s)))
   \<and> (toLowerCase h s \<in> set sharedOnlyKeys \<longrightarrow>
      getFileIcon_shared h (Some s) \<noteq> Inr (getFileIcon h (Some s)))
   \<and> (s \<noteq> [] \<and> parseDate h s = Some t
        \<and> 2 \<le> (now h - t) div 86400000 \<and> (now h - t) div 86400000 < 7 \<longrightarrow>
      formatRelativeDate_shared h (Some s) = formatRelativeDate h (Some s))"
proof -
  define k where "k = toLowerCase h s"
  have same: "or_else (getprop h iconMap k) (JStr [0xD83D, 0xDCC4]) =
      or_else (getprop h FILE_ICONS k) (getprop h FILE_ICONS (js ''default''))"
    if "k \<notin> set sharedOnlyKeys"
  proof (cases "k \<in> set objectPrototypeKeys")
    case True
    then show ?thesis
      by (simp add: core_icon_inherited shared_icon_inherited)
  next
    case False
    then show ?thesis
      using that by (simp add: core_icon_cases shared_icon_agrees)
  qed
  have other: "or_else (getprop h iconMap k) (JStr [0xD83D, 0xDCC4]) \<noteq>
      or_else (getprop h FILE_ICONS k) (getprop h FILE_ICONS (js ''default''))"
    if "k \<in> set sharedOnlyKeys"
    using that shared_only_differs [of h] by auto
  have days: "formatRelativeDate_shared h (Some s) = formatRelativeDate h (Some s)"
    if "s \<noteq> []" "parseDate h s = Some t"
      "2 \<le> (now h - t) div 86400000" "(now h - t) div 86400000 < 7"
  proof -
    define e where "e = now h - t"
    have "\<not> e div 86400000 < 2"
      using that by (simp add: e_def)
    then have "172800000 \<le> e"
      by (simp add: int_div_less_iff)
    then have "\<not> e div 60000 < 1" "\<not> e div 60000 < 60" "\<not> e div 3600000 < 24"
      by (simp_all add: int_div_less_iff)
    then show ?thesis
      using that
      by (simp add: formatRelativeDate_shared_def formatRelativeDate_def Let_def e_def)
  qed
  show ?thesis
    using same other days
    by (simp add: getFileIcon_shared_def getFileIcon_def k_def)
qed

theorem own_utilities_partly_agree_witness:
  "toLowerCase exampleHost (js ''.PDF'') \<notin> set sharedOnlyKeys
   \<and> getFileIcon_shared exampleHost (Some (js ''.PDF''))
      = Inr (getFileIcon exampleHost (Some (js ''.PDF'')))
   \<and> toLowerCase exampleHost (js ''.Md'') \<in> set sharedOnlyKeys
   \<and> getFileIcon_shared exampleHost (Some (js ''.Md''))
      \<noteq> Inr (getFileIcon exampleHost (Some (js ''.Md'')))
   \<and> formatRelativeDate_shared (exampleHost\<lparr>now := 259200000\<rparr>)
        (Some (js ''1970-01-01T00:00:00.000Z''))
      = formatRelativeDate (exampleHost\<lparr>now := 259200000\<rparr>)
        (Some (js ''1970-01-01T00:00:00.000Z''))"
proof -
  have pdf: "toLowerCase exampleHost (js ''.PDF'') = js ''.pdf''"
    and md: "toLowerCase exampleHost (js ''.Md'') = js ''.md''"
    by (simp_all add: exampleHost_lower lowerUnit_def js_def)
  have keys: "js ''.pdf'' \<notin> set sharedOnlyKeys" "js ''.md'' \<in> set sharedOnlyKeys"
    by (simp_all add: sharedOnlyKeys_eval js_eq_iff)
  have date: "js ''1970-01-01T00:00:00.000Z'' \<noteq> []"
    "parseDate (exampleHost\<lparr>now := 259200000\<rparr>) (js ''1970-01-01T00:00:00.000Z'') = Some 0"
    "now (exampleHost\<lparr>now := 259200000\<rparr>) = 259200000"
    by (simp_all add: exampleHost_def js_def)
  show ?thesis
    using pdf md keys date
      own_utilities_partly_agree [of exampleHost "js ''.PDF''"]
      own_utilities_partly_agree [of exampleHost "js ''.Md''"]
      own_utilities_partly_agree [of "exampleHost\<lparr>now := 259200000\<rparr>"
        "js ''1970-01-01T00:00:00.000Z''" 0]
    by simp
qed

subsection \<open>C4: escaping\<close>

text \<open>
  Claim C4. In the row of a record with a file name, the path attribute, the title
  (the file name), the displayed name and the folder path (in both places) are inserted
  with every \<open>&\<close>, \<open><\<close>, \<open>>\<close>, \<open>"\<close>, \<open>'\<close> replaced by its entity: the chain of
  replacements of \<open>escapeHTML\<close> equals the character-wise replacement, whose result
  contains none of \<open>< > " '\<close> and no \<open>&\<close> other than the start of an entity.
\<close>

theorem row_text_is_escaped:
  "(filename f = Some fn \<longrightarrow>
      createFileItemHTML h f =
        Inr (fileItemTemplate
               (escaped (orEmpty (path f)))
               (escaped fn)
               (toString (getFileIcon h (extension f)))
               (escaped (displayName fn))
               (escaped (getFolderPath (path f)))
               (formatRelativeDate h (modified_at f))))
   \<and> escapeHTML x = escaped (orEmpty x)
   \<and> wellEscaped (escaped s)
   \<and> set (escaped s) \<inter> {0x3C, 0x3E, 0x22, 0x27} = {}"
  by (simp add: createFileItemHTML_def escapeHTML_escaped wellEscaped_escaped escaped_no_markup)

theorem row_text_is_escaped_witness:
  "filename \<lparr>path = Some (js ''a/<b>''), filename = Some (js ''<b>&''), extension = None,
             modified_at = None\<rparr> = Some (js ''<b>&'')
   \<and> createFileItemHTML exampleHost
        \<lparr>path = Some (js ''a/<b>''), filename = Some (js ''<b>&''), extension = None,
         modified_at = None\<rparr>
      = Inr (fileItemTemplate (js ''a/&lt;b&gt;'') (js ''&lt;b&gt;&amp;'') [0xD83D, 0xDCC4]
               (js ''&lt;b&gt;&amp;'') (js ''a'') [])"
  using row_text_is_escaped [of "\<lparr>path = Some (js ''a/<b>''), filename = Some (js ''<b>&''),
      extension = None, modified_at = None\<rparr>" "js ''<b>&''" exampleHost]
  by (simp add: escaped_def entity_def js_def displayName_def getFolderPath_def getFileIcon_def
      getprop_def FILE_ICONS_def or_else_def objectPrototypeKeys_def exampleHost_def
      formatRelativeDate_def)

subsection \<open>C5: the icon of a row\<close>

text \<open>
  The icon of a row is looked up in \<open>FILE_ICONS\<close>, which lists document extensions
  only, not in the table of the shared utilities that covers text, images, audio,
  video, archives and source code: for \<open>.png\<close> the row shows the default glyph, and
  the shared table has the picture glyph.
\<close>

theorem row_icon_not_category_table:
  "getFileIcon exampleHost (Some (js ''.png'')) = JStr [0xD83D, 0xDCC4]
   \<and> getprop exampleHost iconMap (js ''.png'') = JStr [0xD83D, 0xDDBC, 0xFE0F]"
  by (simp add: getFileIcon_def getprop_def iconMap_def FILE_ICONS_def
      or_else_def objectPrototypeKeys_def exampleHost_lower lowerUnit_def js_def)

text \<open>
  Claim C5, amended. The icon in the row of a record is \<open>getFileIcon\<close> of its
  extension. For an extension whose lower-cased form names no inherited member, it is
  the glyph of the fixed table of the seven document extensions \<open>.pdf\<close>, \<open>.doc\<close>,
  \<open>.docx\<close>, \<open>.xls\<close>, \<open>.xlsx\<close>, \<open>.ppt\<close>, \<open>.pptx\<close>, and the default glyph
  for every other one, among them every text, image, audio, video, archive and source
  code extension of the shared table; an empty or absent extension gives the default
  glyph (the lower-cased empty text being empty).
\<close>

theorem row_icon_document_table:
  "(toLowerCase h (orEmpty ext) \<notin> set objectPrototypeKeys \<longrightarrow>
      getFileIcon h ext = documentIcon (toLowerCase h (orEmpty ext)))
   \<and> (toLowerCase h (orEmpty ext) \<in> set sharedOnlyKeys \<longrightarrow>
      getFileIcon h ext = JStr [0xD83D, 0xDCC4])
   \<and> (toLowerCase h [] = [] \<longrightarrow>
      getFileIcon h None = JStr [0xD83D, 0xDCC4] \<and> getFileIcon h (Some []) = JStr [0xD83D, 0xDCC4])
   \<and> (filename f = Some fn \<longrightarrow>
      createFileItemHTML h f =
        Inr (fileItemTemplate
               (escapeHTML (path f))
               (escapeHTML (Some fn))
               (toString (getFileIcon h (extension f)))
               (escapeHTML (Some (displayName fn)))
               (escapeHTML (Some (getFolderPath (path f))))
               (formatRelativeDate h (modified_at f))))"
proof -
  have table: "getFileIcon h ext = documentIcon (toLowerCase h (orEmpty ext))"
    if "toLowerCase h (orEmpty ext) \<notin> set objectPrototypeKeys"
    using that core_icon_cases [of "toLowerCase h (orEmpty ext)" h]
    by (simp add: getFileIcon_def documentIcon_def)
  have uncovered: "getFileIcon h ext = JStr [0xD83D, 0xDCC4]"
    if "toLowerCase h (orEmpty ext) \<in> set sharedOnlyKeys"
    using that shared_only_differs [of h] by (simp add: getFileIcon_def)
  have empty: "getFileIcon h None = JStr [0xD83D, 0xDCC4]"
    "getFileIcon h (Some []) = JStr [0xD83D, 0xDCC4]" if "toLowerCase h [] = []"
    using that
    by (simp_all add: getFileIcon_def getprop_def FILE_ICONS_def or_else_def
        objectPrototypeKeys_def js_def)
  have row: "createFileItemHTML h f =
      Inr (fileItemTemplate (escapeHTML (path f)) (escapeHTML (Some fn))
             (toString (getFileIcon h (extension f))) (escapeHTML (Some (displayName fn)))
             (escapeHTML (Some (getFolderPath (path f)))) (formatRelativeDate h (modified_at f)))"
    if "filename f = Some fn"
    using that by (simp add: createFileItemHTML_def)
  show ?thesis
    using table uncovered empty row by blast
qed

theorem row_icon_document_table_witness:
  "toLowerCase exampleHost (orEmpty (Some (js ''.DOCX''))) \<notin> set objectPrototypeKeys
   \<and> getFileIcon exampleHost (Some (js ''.DOCX'')) = JStr [0xD83D, 0xDCD8]
   \<and> toLowerCase exampleHost (orEmpty (Some (js ''.png''))) \<in> set sharedOnlyKeys
   \<and> getFileIcon exampleHost (Some (js ''.png'')) = JStr [0xD83D, 0xDCC4]
   \<and> toLowerCase exampleHost [] = []
   \<and> getFileIcon exampleHost None = JStr [0xD83D, 0xDCC4]
   \<and> filename exampleFile = Some (js ''a.pdf'')
   \<and> createFileItemHTML exampleHost exampleFile
      = Inr (fileItemTemplate (js ''C:/docs/a.pdf'') (js ''a.pdf'') [0xD83D, 0xDCD5] (js ''a.pdf'')
               (js ''C:'' @ [0x5C] @ js ''docs'') [])"
proof -
  have lower: "toLowerCase exampleHost (js ''.DOCX'') = js ''.docx''"
    "toLowerCase exampleHost (js ''.png'') = js ''.png''"
    "toLowerCase exampleHost (js ''.pdf'') = js ''.pdf''"
    "toLowerCase exampleHost [] = []"
    by (simp_all add: exampleHost_lower lowerUnit_def js_def)
  have keys: "js ''.docx'' \<notin> set objectPrototypeKeys" "js ''.png'' \<in> set sharedOnlyKeys"
    "js ''.pdf'' \<notin> set objectPrototypeKeys"
    by (simp_all add: objectPrototypeKeys_def sharedOnlyKeys_eval js_eq_iff)
  have docx: "getFileIcon exampleHost (Some (js ''.DOCX'')) = JStr [0xD83D, 0xDCD8]"
    using lower keys row_icon_document_table [of exampleHost "Some (js ''.DOCX'')"]
    by (simp add: documentIcon_def js_eq_iff)
  have png: "getFileIcon exampleHost (Some (js ''.png'')) = JStr [0xD83D, 0xDCC4]"
    using lower keys row_icon_document_table [of exampleHost "Some (js ''.png'')"]
    by simp
  have none: "getFileIcon exampleHost None = JStr [0xD83D, 0xDCC4]"
    using lower row_icon_document_table [of exampleHost None]
    by simp
  have pdf: "getFileIcon exampleHost (Some (js ''.pdf'')) = JStr [0xD83D, 0xDCD5]"
    using lower keys row_icon_document_table [of exampleHost "Some (js ''.pdf'')"]
    by (simp add: documentIcon_def)
  have fields: "filename exampleFile = Some (js ''a.pdf'')"
    "path exampleFile = Some (js ''C:/docs/a.pdf'')"
    "extension exampleFile = Some (js ''.pdf'')" "modified_at exampleFile = None"
    by (simp_all add: exampleFile_def)
  have parts: "escapeHTML (Some (js ''C:/docs/a.pdf'')) = js ''C:/docs/a.pdf''"
    "escapeHTML (Some (js ''a.pdf'')) = js ''a.pdf''"
    "displayName (js ''a.pdf'') = js ''a.pdf''"
    "getFolderPath (Some (js ''C:/docs/a.pdf'')) = js ''C:'' @ [0x5C] @ js ''docs''"
    "escapeHTML (Some (js ''C:'' @ [0x5C] @ js ''docs'')) = js ''C:'' @ [0x5C] @ js ''docs''"
    "formatRelativeDate exampleHost None = []"
    by (simp_all add: escapeHTML_def displayName_def getFolderPath_def formatRelativeDate_def
        js_def)
  have row: "createFileItemHTML exampleHost exampleFile
      = Inr (fileItemTemplate (js ''C:/docs/a.pdf'') (js ''a.pdf'') [0xD83D, 0xDCD5] (js ''a.pdf'')
               (js ''C:'' @ [0x5C] @ js ''docs'') [])"
    using fields parts pdf
      row_icon_document_table [of exampleHost None exampleFile "js ''a.pdf''"]
    by simp
  show ?thesis
    using lower keys docx png none fields row by simp
qed

subsection \<open>C6: the relative date\<close>

text \<open>
  The labels of recent.js are Japanese: 90 seconds back gives the digit 1 followed by
  the two characters U+5206 U+524D, not the text \<open>1min ago\<close>.
\<close>

theorem relative_date_label_counterexample:
  "formatRelativeDate (exampleHost\<lparr>now := 90000\<rparr>) (Some (js ''1970-01-01T00:00:00.000Z''))
     = js ''1'' @ [0x5206, 0x524D]
   \<and> formatRelativeDate (exampleHost\<lparr>now := 90000\<rparr>) (Some (js ''1970-01-01T00:00:00.000Z''))
     \<noteq> js ''1min ago''"
  by (simp add: formatRelativeDate_def exampleHost_def num_def digits.simps js_def)

text \<open>
  Claim C6, amended. For a present date that the host reads as the time \<open>t\<close>, with
  the elapsed time \<open>now - t\<close> in milliseconds: less than one minute gives U+4ECA; less
  than 60 minutes the floor of the minutes followed by U+5206 U+524D; less than 24 hours
  the floor of the hours followed by U+6642 U+9593 U+524D; less than 7 days the floor of
  the days followed by U+65E5 U+524D; 7 days or more the ja-JP short month and day of
  the date. An absent or empty date gives the empty label.
\<close>

theorem relative_date_label:
  "(s \<noteq> [] \<and> parseDate h s = Some t \<longrightarrow>
      (now h - t < 60000 \<longrightarrow> formatRelativeDate h (Some s) = [0x4ECA])
      \<and> (60000 \<le> now h - t \<and> now h - t < 3600000 \<longrightarrow>
           formatRelativeDate h (Some s) = num ((now h - t) div 60000) @ [0x5206, 0x524D])
      \<and> (3600000 \<le> now h - t \<and> now h - t < 86400000 \<longrightarrow>
           formatRelativeDate h (Some s) = num ((now h - t) div 3600000) @ [0x6642, 0x9593, 0x524D])
      \<and> (86400000 \<le> now h - t \<and> now h - t < 604800000 \<longrightarrow>
           formatRelativeDate h (Some s) = num ((now h - t) div 86400000) @ [0x65E5, 0x524D])
      \<and> (604800000 \<le> now h - t \<longrightarrow>
           formatRelativeDate h (Some s) = toLocaleDateString h (Some t)))
   \<and> formatRelativeDate h None = []
   \<and> formatRelativeDate h (Some []) = []"
proof -
  define e where "e = now h - t"
  have m: "e div 60000 < 1 \<longleftrightarrow> e < 60000" "e div 60000 < 60 \<longleftrightarrow> e < 3600000"
    and hr: "e div 3600000 < 24 \<longleftrightarrow> e < 86400000"
    and d: "e div 86400000 < 7 \<longleftrightarrow> e < 604800000"
    by (simp_all add: int_div_less_iff)
  have "formatRelativeDate h (Some s) =
      (if e < 60000 then [0x4ECA]
       else if e < 3600000 then num (e div 60000) @ [0x5206, 0x524D]
       else if e < 86400000 then num (e div 3600000) @ [0x6642, 0x9593, 0x524D]
       else if e < 604800000 then num (e div 86400000) @ [0x65E5, 0x524D]
       else toLocaleDateString h (Some t))"
    if "s \<noteq> []" "parseDate h s = Some t"
    using that m hr d by (simp add: formatRelativeDate_def Let_def e_def)
  then show ?thesis
    unfolding e_def by (simp add: formatRelativeDate_def)
qed

theorem relative_date_label_witness:
  "formatRelativeDate (exampleHost\<lparr>now := 30000\<rparr>) (Some (js ''1970-01-01T00:00:00.000Z''))
     = [0x4ECA]
   \<and> formatRelativeDate (exampleHost\<lparr>now := 90000\<rparr>) (Some (js ''1970-01-01T00:00:00.000Z''))
     = js ''1'' @ [0x5206, 0x524D]
   \<and> formatRelativeDate (exampleHost\<lparr>now := 7200000\<rparr>) (Some (js ''1970-01-01T00:00:00.000Z''))
     = js ''2'' @ [0x6642, 0x9593, 0x524D]
   \<and> formatRelativeDate (exampleHost\<lparr>now := 90000000\<rparr>) (Some (js ''1970-01-01T00:00:00.000Z''))
     = js ''1'' @ [0x65E5, 0x524D]
   \<and> formatRelativeDate (exampleHost\<lparr>now := 864000000\<rparr>) (Some (js ''1970-01-01T00:00:00.000Z''))
     = [0x31, 0x6708, 0x31, 0x65E5]"
proof -
  have p: "parseDate (exampleHost\<lparr>now := n\<rparr>) (js ''1970-01-01T00:00:00.000Z'') = Some 0"
    "toLocaleDateString (exampleHost\<lparr>now := n\<rparr>) (Some 0) = [0x31, 0x6708, 0x31, 0x65E5]"
    "js ''1970-01-01T00:00:00.000Z'' \<noteq> []" for n
    by (simp_all add: exampleHost_def js_def)
  show ?thesis
    using p
      relative_date_label [of "js ''1970-01-01T00:00:00.000Z''" "exampleHost\<lparr>now := 30000\<rparr>" 0]
      relative_date_label [of "js ''1970-01-01T00:00:00.000Z''" "exampleHost\<lparr>now := 90000\<rparr>" 0]
      relative_date_label [of "js ''1970-01-01T00:00:00.000Z''" "exampleHost\<lparr>now := 7200000\<rparr>" 0]
      relative_date_label [of "js ''1970-01-01T00:00:00.000Z''" "exampleHost\<lparr>now := 90000000\<rparr>" 0]
      relative_date_label [of "js ''1970-01-01T00:00:00.000Z''" "exampleHost\<lparr>now := 864000000\<rparr>" 0]
    by (simp add: num_def digits.simps js_def)
qed

subsection \<open>C7: the displayed name\<close>

text \<open>
  Claim C7. The name shown in a row is the file name when it has at most 30 code
  units, and otherwise its first 27 code units followed by three full stops, 30 code
  units in all; the row inserts this name, escaped.
\<close>

theorem display_name_truncated:
  "(length fn \<le> 30 \<longrightarrow> displayName fn = fn)
   \<and> (30 < length fn \<longrightarrow> displayName fn = take 27 fn @ js ''...'' \<and> length (displayName fn) = 30)
   \<and> (filename f = Some fn \<longrightarrow>
        createFileItemHTML h f =
          Inr (fileItemTemplate
                 (escapeHTML (path f))
                 (escapeHTML (Some fn))
                 (toString (getFileIcon h (extension f)))
                 (escapeHTML (Some (if length fn \<le> 30 then fn else take 27 fn @ js ''...'')))
                 (escapeHTML (Some (getFolderPath (path f))))
                 (formatRelativeDate h (modified_at f))))"
  by (auto simp add: displayName_def createFileItemHTML_def js_def)

theorem display_name_truncated_witness:
  "length (js ''12345678901234567890123456789012345'') = 35
   \<and> displayName (js ''12345678901234567890123456789012345'')
      = js ''123456789012345678901234567...''
   \<and> length (js ''123456789012345678901234567890'') = 30
   \<and> displayName (js ''123456789012345678901234567890'') = js ''123456789012345678901234567890''
   \<and> createFileItemHTML exampleHost
        \<lparr>path = None, filename = Some (js ''12345678901234567890123456789012345''),
         extension = None, modified_at = None\<rparr>
      = Inr (fileItemTemplate [] (js ''12345678901234567890123456789012345'') [0xD83D, 0xDCC4]
               (js ''123456789012345678901234567...'') [] [])"
proof -
  have icon: "toString (getFileIcon exampleHost None) = [0xD83D, 0xDCC4]"
    by (simp add: getFileIcon_def getprop_def FILE_ICONS_def or_else_def objectPrototypeKeys_def
        exampleHost_lower js_def)
  have rest: "getFolderPath None = []" "formatRelativeDate exampleHost None = []"
    by (simp_all add: getFolderPath_def formatRelativeDate_def)
  have plain: "escapeHTML None = []" "escapeHTML (Some []) = []"
    "escapeHTML (Some (js ''12345678901234567890123456789012345''))
       = js ''12345678901234567890123456789012345''"
    "escapeHTML (Some (js ''123456789012345678901234567'' @ js ''...''))
       = js ''123456789012345678901234567...''"
    by (simp_all add: escapeHTML_def js_def)
  have short: "take 27 (js ''12345678901234567890123456789012345'')
      = js ''123456789012345678901234567''"
    by (simp add: js_def)
  show ?thesis
    using icon rest plain short
      display_name_truncated [of "js ''12345678901234567890123456789012345''"
        "\<lparr>path = None, filename = Some (js ''12345678901234567890123456789012345''),
          extension = None, modified_at = None\<rparr>" exampleHost]
      display_name_truncated [of "js ''123456789012345678901234567890''"]
    by (simp add: js_def)
qed

subsection \<open>C8: an answer without results\<close>

text \<open>
  Claim C8. When the page has the list element and a successful answer has no
  \<open>hits\<close>, or an empty array of them, \<open>loadRecentFiles\<close> stores the empty cache and
  shows the Empty state: the block of class \<open>recent-files-empty\<close> with the line that
  no file matches, and no row. Its markup differs from the Errored state with any message.
\<close>

theorem empty_result_renders_empty:
  "(recentFilesList s = Some html \<and> ok r \<and> (json r = JsonValue None \<or> json r = JsonValue (Some []))
      \<longrightarrow> loadRecentFiles h (Response r) s
            = Inr (s\<lparr>allFilesCache := [], recentFilesList := Some emptyHTML\<rparr>))
   \<and> emptyHTML =
         js ''\<newline>            <div class=\"recent-files-empty\">\<newline>                '' @
         [0xD83D, 0xDCED] @ js '' '' @
         [0x8A72, 0x5F53, 0x3059, 0x308B, 0x30D5, 0x30A1, 0x30A4, 0x30EB, 0x304C, 0x3042, 0x308A,
          0x307E, 0x305B, 0x3093] @
         js ''\<newline>            </div>\<newline>        ''
   \<and> emptyHTML \<noteq> errorHTML m"
proof -
  have shown: "loadRecentFiles h (Response r) s
      = Inr (s\<lparr>allFilesCache := [], recentFilesList := Some emptyHTML\<rparr>)"
    if "recentFilesList s = Some html" "ok r"
      "json r = JsonValue None \<or> json r = JsonValue (Some [])"
    using that
    by (auto simp add: loadRecentFiles_def loadRecentFiles_try_def displayFilteredFiles_def
        filteredFiles_Nil)
  have markup: "emptyHTML =
         js ''\<newline>            <div class=\"recent-files-empty\">\<newline>                '' @
         [0xD83D, 0xDCED] @ js '' '' @
         [0x8A72, 0x5F53, 0x3059, 0x308B, 0x30D5, 0x30A1, 0x30A4, 0x30EB, 0x304C, 0x3042, 0x308A,
          0x307E, 0x305B, 0x3093] @
         js ''\<newline>            </div>\<newline>        ''"
    by (simp add: emptyHTML_def)
  show ?thesis
    using shown markup emptyHTML_not_errorHTML [of m] by blast
qed

theorem empty_result_renders_empty_witness:
  "recentFilesList examplePanel = Some []
   \<and> ok \<lparr>ok = True, status = 200, json = JsonValue None\<rparr>
   \<and> loadRecentFiles exampleHost (Response \<lparr>ok = True, status = 200, json = JsonValue None\<rparr>)
        examplePanel
      = Inr (examplePanel\<lparr>allFilesCache := [], recentFilesList := Some
         (js ''\<newline>            <div class=\"recent-files-empty\">\<newline>                '' @
          [0xD83D, 0xDCED] @ js '' '' @
          [0x8A72, 0x5F53, 0x3059, 0x308B, 0x30D5, 0x30A1, 0x30A4, 0x30EB, 0x304C, 0x3042, 0x308A,
           0x307E, 0x305B, 0x3093] @
          js ''\<newline>            </div>\<newline>        '')\<rparr>)
   \<and> loadRecentFiles exampleHost
        (Response \<lparr>ok = True, status = 200, json = JsonValue (Some [])\<rparr>) examplePanel
      = Inr (examplePanel\<lparr>allFilesCache := [], recentFilesList := Some emptyHTML\<rparr>)"
proof -
  have shown: "recentFilesList examplePanel = Some []"
    by (simp add: examplePanel_def)
  show ?thesis
    using shown
      empty_result_renders_empty [where s = examplePanel and html = "[]" and h = exampleHost
        and r = "\<lparr>ok = True, status = 200, json = JsonValue None\<rparr>"]
      empty_result_renders_empty [where s = examplePanel and html = "[]" and h = exampleHost
        and r = "\<lparr>ok = True, status = 200, json = JsonValue (Some [])\<rparr>"]
    by simp
qed

subsection \<open>C9: the folder path\<close>

text \<open>
  Claim C9. The folder path of a path is the path with every forward slash turned into
  a backslash, split at the backslashes, without its last segment, joined again with
  backslashes: that is, the part before the last backslash, and the empty text when
  there is none. An absent or empty path gives the empty folder path.
\<close>

theorem folder_path_drops_last_segment:
  "getFolderPath None = []
   \<and> getFolderPath (Some []) = []
   \<and> getFolderPath (Some p) = js_join 0x5C (butlast (js_split 0x5C (backslashed p)))
   \<and> (backslashed p = d @ 0x5C # name \<and> 0x5C \<notin> set name \<longrightarrow> getFolderPath (Some p) = d)
   \<and> (0x5C \<notin> set (backslashed p) \<longrightarrow> getFolderPath (Some p) = [])"
proof -
  have eq: "getFolderPath (Some p) = js_join 0x5C (butlast (js_split 0x5C (backslashed p)))"
    by (simp add: getFolderPath_def replace_g_single backslashed_def)
  have last: "getFolderPath (Some p) = d" if "backslashed p = d @ 0x5C # name" "0x5C \<notin> set name"
    using that by (simp add: eq js_split_last_segment js_join_split)
  have none: "getFolderPath (Some p) = []" if "0x5C \<notin> set (backslashed p)"
    using that by (simp add: eq js_split_no_sep)
  show ?thesis
    using eq last none by (simp add: getFolderPath_def)
qed

theorem folder_path_drops_last_segment_witness:
  "backslashed (js ''C:/docs'' @ [0x5C] @ js ''a/b.pdf'')
     = (js ''C:'' @ [0x5C] @ js ''docs'' @ [0x5C] @ js ''a'') @ 0x5C # js ''b.pdf''
   \<and> 0x5C \<notin> set (js ''b.pdf'')
   \<and> getFolderPath (Some (js ''C:/docs'' @ [0x5C] @ js ''a/b.pdf''))
     = js ''C:'' @ [0x5C] @ js ''docs'' @ [0x5C] @ js ''a''
   \<and> 0x5C \<notin> set (backslashed (js ''b.pdf''))
   \<and> getFolderPath (Some (js ''b.pdf'')) = []"
  using folder_path_drops_last_segment [of "js ''C:/docs'' @ [0x5C] @ js ''a/b.pdf''"
      "js ''C:'' @ [0x5C] @ js ''docs'' @ [0x5C] @ js ''a''" "js ''b.pdf''"]
    folder_path_drops_last_segment [of "js ''b.pdf''"]
  by (simp add: backslashed_def js_def)

subsection \<open>C10: the domain of row rendering\<close>

text \<open>
  Claim C10. \<open>createFileItemHTML\<close> returns a row for every record with a file name;
  with extension, path and date all absent the row has the default glyph, the empty
  folder path and the empty date label (the lower-cased empty text being empty). With
  the file name absent it raises the TypeError of reading \<open>length\<close>.
\<close>

theorem row_rendering_domain:
  "(filename f = Some fn \<longrightarrow> (\<exists>html. createFileItemHTML h f = Inr html))
   \<and> (filename f = Some fn \<and> extension f = None \<and> path f = None \<and> modified_at f = None
        \<and> toLowerCase h [] = [] \<longrightarrow>
        getFileIcon h (extension f) = JStr [0xD83D, 0xDCC4]
        \<and> getFolderPath (path f) = []
        \<and> formatRelativeDate h (modified_at f) = []
        \<and> createFileItemHTML h f =
            Inr (fileItemTemplate [] (escapeHTML (Some fn)) [0xD83D, 0xDCC4]
                   (escapeHTML (Some (displayName fn))) [] []))
   \<and> (filename f = None \<longrightarrow> createFileItemHTML h f = Inl (TypeError (js ''length'')))"
proof -
  have succeeds: "\<exists>html. createFileItemHTML h f = Inr html" if "filename f = Some fn"
    using that by (simp add: createFileItemHTML_def Let_def)
  have icon: "getFileIcon h None = JStr [0xD83D, 0xDCC4]" if "toLowerCase h [] = []"
    using that
    by (simp add: getFileIcon_def getprop_def FILE_ICONS_def or_else_def objectPrototypeKeys_def
        js_def)
  have folder: "getFolderPath None = []"
    by (simp add: getFolderPath_def)
  have date: "formatRelativeDate h None = []"
    by (simp add: formatRelativeDate_def)
  have bare: "createFileItemHTML h f =
      Inr (fileItemTemplate [] (escapeHTML (Some fn)) [0xD83D, 0xDCC4]
             (escapeHTML (Some (displayName fn))) [] [])"
    if "filename f = Some fn" "extension f = None" "path f = None" "modified_at f = None"
      "toLowerCase h [] = []"
    using that icon folder date by (simp add: createFileItemHTML_def escapeHTML_def)
  have throws: "createFileItemHTML h f = Inl (TypeError (js ''length''))" if "filename f = None"
    using that by (simp add: createFileItemHTML_def Let_def)
  show ?thesis
    using succeeds icon folder date bare throws by simp
qed

theorem row_rendering_domain_witness:
  "createFileItemHTML exampleHost
      \<lparr>path = None, filename = Some (js ''a.pdf''), extension = None, modified_at = None\<rparr>
     = Inr (fileItemTemplate [] (js ''a.pdf'') [0xD83D, 0xDCC4] (js ''a.pdf'') [] [])
   \<and> createFileItemHTML exampleHost
      \<lparr>path = Some (js ''a.pdf''), filename = None, extension = Some (js ''.pdf''),
       modified_at = None\<rparr>
     = Inl (TypeError (js ''length''))"
proof -
  have lower: "toLowerCase exampleHost [] = []"
    by (simp add: exampleHost_def)
  show ?thesis
    using lower row_rendering_domain [of "\<lparr>path = None, filename = Some (js ''a.pdf''), extension = None,
      modified_at = None\<rparr>" "js ''a.pdf''" exampleHost]
    row_rendering_domain [of "\<lparr>path = Some (js ''a.pdf''), filename = None,
      extension = Some (js ''.pdf''), modified_at = None\<rparr>" fn exampleHost]
    by (simp add: escapeHTML_def displayName_def js_def)
qed

end
